theory Spec2Isabelle
  imports Complex_Main "HOL-Library.Log_Nat"
begin

section \<open>Python floats\<close>

text \<open>
  \<^verbatim>\<open>utils.py\<close> compares the aspect ratio of an image in Python floats (IEEE 754 binary64).
  A finite float is a rational number, and every float operation of the source (the
  literals \<^verbatim>\<open>0.05\<close>, \<^verbatim>\<open>16 / 9\<close>, \<^verbatim>\<open>1 - t\<close>, \<^verbatim>\<open>1 + t\<close>, the two products and
  \<^verbatim>\<open>width / height\<close> on integers) returns the exact result rounded to the nearest float,
  ties to the even significand. \<open>round_to_double\<close> is that rounding on the rationals:
  53 significant bits at the binade of the argument, and the fixed spacing \<open>2 ^ - 1074\<close>
  below \<open>2 ^ - 1022\<close> (the subnormal range). Overflow is left to the operation that
  rounds (\<open>truediv\<close> below).
\<close>

definition pow2 :: "int \<Rightarrow> rat" where
  "pow2 e = (if 0 \<le> e then 2 ^ nat e else 1 / 2 ^ nat (- e))"

definition round_half_even :: "rat \<Rightarrow> int" where
  "round_half_even x =
     (let f = \<lfloor>x\<rfloor>; d = x - of_int f
      in if d < 1 / 2 then f
         else if 1 / 2 < d then f + 1
         else if even f then f else f + 1)"

text \<open>The exponent \<open>e\<close> with \<open>2 ^ e \<le> x < 2 ^ (e + 1)\<close>, for a positive \<open>x\<close>.\<close>

definition binade :: "rat \<Rightarrow> int" where
  "binade x =
     (let (a, b) = quotient_of x;
          k = bitlen a - bitlen b
      in if pow2 k \<le> x then k else k - 1)"

definition round_to_double :: "rat \<Rightarrow> rat" where
  "round_to_double x =
     (if x = 0 then 0
      else let e = max (binade \<bar>x\<bar>) (- 1022)
           in sgn x * of_int (round_half_even (\<bar>x\<bar> * pow2 (52 - e))) * pow2 (e - 52))"

section \<open>utils.py: the photo store\<close>

definition ALLOWED_EXTENSIONS :: "string list" where
  "ALLOWED_EXTENSIONS = [''png'', ''jpg'', ''jpeg'', ''gif'']"

definition ASPECT_RATIO :: rat where
  "ASPECT_RATIO = round_to_double (16 / 9)"

definition ASPECT_RATIO_TOLERANCE :: rat where
  "ASPECT_RATIO_TOLERANCE = round_to_double (5 / 100)"

text \<open>
  \<^verbatim>\<open>str.lower()\<close> on one character. Only the letters A to Z matter here: no other
  character lowers to a letter of an allowed extension.
\<close>

definition lower_char :: "char \<Rightarrow> char" where
  "lower_char c =
     (case map_of (zip ''ABCDEFGHIJKLMNOPQRSTUVWXYZ'' ''abcdefghijklmnopqrstuvwxyz'') c of
        None \<Rightarrow> c
      | Some l \<Rightarrow> l)"

text \<open>\<^verbatim>\<open>filename.rsplit('.', 1)[1]\<close>: the text after the last dot (the source reads it
  only when the name has a dot).\<close>

definition rsplit_ext :: "string \<Rightarrow> string" where
  "rsplit_ext s = rev (takeWhile (\<lambda>c. c \<noteq> CHR ''.'') (rev s))"

definition allowed_file :: "string \<Rightarrow> bool" where
  "allowed_file fname \<longleftrightarrow>
     CHR ''.'' \<in> set fname \<and> map lower_char (rsplit_ext fname) \<in> set ALLOWED_EXTENSIONS"

text \<open>
  The exceptions the \<^verbatim>\<open>try\<close> block of \<^verbatim>\<open>save_photo\<close> can see, and the error texts it
  returns: \<^verbatim>\<open>"Invalid file type. ..."\<close>, \<^verbatim>\<open>"Invalid aspect ratio. ... found: r"\<close> and
  \<^verbatim>\<open>"Error processing image: e"\<close>.
\<close>

datatype image_exception =
    Save_failed
  | Cannot_identify_image
  | Height_zero
  | Zero_division
  | Division_overflow

datatype photo_error =
    Invalid_file_type
  | Invalid_aspect_ratio rat
  | Error_processing_image image_exception

text \<open>\<^verbatim>\<open>width / height\<close> on Python integers: the quotient rounded to a float;
  \<^verbatim>\<open>ZeroDivisionError\<close> on a zero divisor, \<^verbatim>\<open>OverflowError\<close> when the rounded quotient
  is beyond the largest float.\<close>

definition truediv :: "nat \<Rightarrow> nat \<Rightarrow> image_exception + rat" where
  "truediv w h =
     (if h = 0 then Inl Zero_division
      else let r = round_to_double (of_nat w / of_nat h)
           in if 2 ^ 1024 \<le> r then Inl Division_overflow else Inr r)"

definition lower_bound :: rat where
  "lower_bound = round_to_double (ASPECT_RATIO * round_to_double (1 - ASPECT_RATIO_TOLERANCE))"

definition upper_bound :: rat where
  "upper_bound = round_to_double (ASPECT_RATIO * round_to_double (1 + ASPECT_RATIO_TOLERANCE))"

text \<open>
  An uploaded file (werkzeug's \<^verbatim>\<open>FileStorage\<close>): its client file name and what
  \<^verbatim>\<open>Image.open(...).size\<close> reads from its bytes, \<open>None\<close> when PIL cannot open them.
  The upload directory is the set of the file names in it. One call of \<^verbatim>\<open>save_photo\<close>
  draws one \<^verbatim>\<open>uuid.uuid4()\<close> (its text is \<open>uuid4\<close>; \<^verbatim>\<open>secure_filename\<close> leaves the
  text of a UUID followed by a dot and an allowed extension as it is) and writes the
  file once (\<open>save_ok\<close> tells whether \<^verbatim>\<open>file.save\<close> returns or raises).
\<close>

record upload =
  filename :: string
  image_size :: "(nat \<times> nat) option"

record io =
  uuid4 :: string
  save_ok :: bool

type_synonym disk = "string set"

definition generated_name :: "io \<Rightarrow> upload \<Rightarrow> string" where
  "generated_name env file = uuid4 env @ ''.'' @ map lower_char (rsplit_ext (filename file))"

text \<open>
  \<^verbatim>\<open>save_photo\<close> (utils.py, lines 34 to 67). It returns the pair of the source (stored
  name, error) and the upload directory it leaves. Every exception inside the \<^verbatim>\<open>try\<close>
  ends in the \<^verbatim>\<open>except\<close> branch, which removes the file if it exists.
\<close>

definition save_photo ::
  "io \<Rightarrow> upload option \<Rightarrow> disk \<Rightarrow> (string option \<times> photo_error option) \<times> disk" where
  "save_photo env file files =
     (case file of
        None \<Rightarrow> ((None, None), files)
      | Some f \<Rightarrow>
          if filename f = [] then ((None, None), files)
          else if \<not> allowed_file (filename f) then ((None, Some Invalid_file_type), files)
          else
            let name = generated_name env f in
            if \<not> save_ok env
            then ((None, Some (Error_processing_image Save_failed)), files - {name})
            else
              let written = insert name files in
              case image_size f of
                None \<Rightarrow>
                  ((None, Some (Error_processing_image Cannot_identify_image)), written - {name})
              | Some (width, height) \<Rightarrow>
                  if height = 0
                  then ((None, Some (Error_processing_image Height_zero)), written - {name})
                  else
                    case truediv width height of
                      Inl e \<Rightarrow> ((None, Some (Error_processing_image e)), written - {name})
                    | Inr actual_ratio \<Rightarrow>
                        if \<not> (lower_bound \<le> actual_ratio \<and> actual_ratio \<le> upper_bound)
                        then ((None, Some (Invalid_aspect_ratio actual_ratio)), written - {name})
                        else ((Some name, None), written))"

text \<open>\<^verbatim>\<open>delete_photo\<close>: no name, or no such file, is a silent no-op.\<close>

definition delete_photo :: "string option \<Rightarrow> disk \<Rightarrow> disk" where
  "delete_photo photo_filename files =
     (case photo_filename of
        None \<Rightarrow> files
      | Some name \<Rightarrow> if name = [] then files else files - {name})"

section \<open>models.py and database.py: the store\<close>

text \<open>
  One record per table row; a nullable column is an \<open>option\<close>. The primary key \<open>id\<close> is
  given by the table's autoincrement sequence, which is part of the store. Rows are kept
  in insertion order.
\<close>

record Chapter =
  ch_id :: int
  ch_photo_path :: "string option"
  ch_title :: "string option"
  ch_order :: "int option"

record Article =
  a_id :: int
  a_photo_path :: "string option"
  a_title :: "string option"
  a_description :: "string option"
  a_link :: "string option"
  a_order :: "int option"
  a_chapter_id :: "int option"

record Tariff =
  t_id :: int
  t_name :: string
  t_duration_days :: int
  t_price :: rat
  t_currency :: string
  t_is_active :: "bool option"

record db =
  chapters :: "Chapter list"
  articles :: "Article list"
  tariffs :: "Tariff list"
  next_chapter_id :: int
  next_article_id :: int

text \<open>
  A SQLAlchemy session (\<^verbatim>\<open>autocommit=False, autoflush=False\<close>): \<open>stored\<close> is what the
  database holds, \<open>pending\<close> is the session's view with its uncommitted writes.
  \<^verbatim>\<open>before_request\<close> opens a session on the store, \<^verbatim>\<open>teardown_appcontext\<close> closes it,
  which drops whatever was not committed. Every query of the handlers below runs before
  the handler's first write, so it reads the stored rows.
\<close>

record session =
  stored :: db
  pending :: db

definition open_session :: "db \<Rightarrow> session" where
  "open_session d = \<lparr>stored = d, pending = d\<rparr>"

definition commit :: "session \<Rightarrow> session" where
  "commit s = s\<lparr>stored := pending s\<rparr>"

definition rollback :: "session \<Rightarrow> session" where
  "rollback s = s\<lparr>pending := stored s\<rparr>"

definition close_session :: "session \<Rightarrow> db" where
  "close_session s = stored s"

text \<open>\<^verbatim>\<open>func.max(column)\<close>: SQL's \<^verbatim>\<open>MAX\<close> skips NULLs and is NULL when nothing is left.\<close>

fun non_null :: "'a option list \<Rightarrow> 'a list" where
  "non_null [] = []"
| "non_null (None # xs) = non_null xs"
| "non_null (Some x # xs) = x # non_null xs"

definition sql_max :: "int option list \<Rightarrow> int option" where
  "sql_max col = (case non_null col of [] \<Rightarrow> None | x # xs \<Rightarrow> Some (fold max xs x))"

text \<open>\<^verbatim>\<open>(max_order or 0) + 1\<close>: \<^verbatim>\<open>or\<close> takes its right operand when the left one is
  \<^verbatim>\<open>None\<close> or \<^verbatim>\<open>0\<close>.\<close>

definition next_order :: "int option \<Rightarrow> int" where
  "next_order max_order =
     (case max_order of None \<Rightarrow> 0 | Some m \<Rightarrow> if m = 0 then 0 else m) + 1"

section \<open>app.py: responses\<close>

definition BASE_IMAGE_URL :: string where
  "BASE_IMAGE_URL = ''http://127.0.0.1:5000/uploads/''"

record chapter_dict =
  cd_id :: int
  cd_title :: "string option"
  cd_photo_url :: "string option"
  cd_order :: "int option"

record article_dict =
  ad_id :: int
  ad_title :: "string option"
  ad_description :: "string option"
  ad_link :: "string option"
  ad_photo_url :: "string option"
  ad_order :: "int option"
  ad_chapter_id :: "int option"

record tariff_dict =
  td_id :: int
  td_name :: string
  td_duration_days :: int
  td_price :: rat
  td_currency :: string
  td_is_active :: "bool option"

text \<open>\<^verbatim>\<open>f"{BASE_IMAGE_URL}{self.photo_path}" if self.photo_path else None\<close>.\<close>

definition photo_url :: "string option \<Rightarrow> string option" where
  "photo_url photo_path =
     (case photo_path of
        None \<Rightarrow> None
      | Some p \<Rightarrow> if p = [] then None else Some (BASE_IMAGE_URL @ p))"

definition chapter_to_dict :: "Chapter \<Rightarrow> chapter_dict" where
  "chapter_to_dict c =
     \<lparr>cd_id = ch_id c, cd_title = ch_title c, cd_photo_url = photo_url (ch_photo_path c),
      cd_order = ch_order c\<rparr>"

definition article_to_dict :: "Article \<Rightarrow> article_dict" where
  "article_to_dict a =
     \<lparr>ad_id = a_id a, ad_title = a_title a, ad_description = a_description a,
      ad_link = a_link a, ad_photo_url = photo_url (a_photo_path a), ad_order = a_order a,
      ad_chapter_id = a_chapter_id a\<rparr>"

definition tariff_to_dict :: "Tariff \<Rightarrow> tariff_dict" where
  "tariff_to_dict t =
     \<lparr>td_id = t_id t, td_name = t_name t, td_duration_days = t_duration_days t,
      td_price = round_to_double (t_price t), td_currency = t_currency t,
      td_is_active = t_is_active t\<rparr>"

text \<open>
  The JSON bodies. An error body is \<^verbatim>\<open>{"error": text}\<close>, a message body
  \<^verbatim>\<open>{"message": text}\<close>; one constructor per text of the source (\<open>Photo_rejected e\<close> is
  the text \<^verbatim>\<open>save_photo\<close> returned, \<open>Chapter_with_id_not_found i\<close> is
  \<^verbatim>\<open>f"Chapter with id {i} not found"\<close>, \<open>An_error_occurred\<close> is
  \<^verbatim>\<open>f"An error occurred: {e}"\<close>). \<open>Internal_server_error\<close> is Flask's answer to an
  exception no handler catches.
\<close>

datatype error_text =
    Forbidden_admin_access_required
  | Title_is_required
  | Photo_rejected photo_error
  | Chapter_not_found
  | Chapter_id_is_required_in_body
  | Invalid_data_format
  | Chapter_with_id_not_found int
  | An_error_occurred
  | Missing_required_fields
  | Article_not_found
  | Article_id_is_required_in_body
  | Article_with_id_not_found int
  | Active_tariff_not_found
  | Internal_server_error

datatype message_text =
    Chapters_order_updated_successfully
  | Articles_order_updated_successfully

datatype body =
    Error error_text
  | Message message_text
  | Chapter_json chapter_dict
  | Article_json article_dict
  | Tariff_json tariff_dict

datatype response = Response (status: nat) (body: body)

text \<open>
  One request: the handler runs on a fresh session and the upload directory; the session
  is closed afterwards.
\<close>

definition run_request ::
  "(session \<Rightarrow> disk \<Rightarrow> response \<times> session \<times> disk) \<Rightarrow> db \<Rightarrow> disk \<Rightarrow> response \<times> db \<times> disk" where
  "run_request handler d files =
     (case handler (open_session d) files of
        (r, s, files') \<Rightarrow> (r, close_session s, files'))"

text \<open>
  \<^verbatim>\<open>admin_required\<close>: the decorator of every mutating endpoint runs the handler only
  for a non-empty \<^verbatim>\<open>X-Telegram-ID\<close> header that is in the configured list
  \<^verbatim>\<open>ADMIN_TELEGRAM_IDS\<close>, and answers 403 otherwise. The theorems on the mutating
  handlers below are about the handler the decorator runs.
\<close>

definition admin_required ::
  "string list \<Rightarrow> string option \<Rightarrow> (session \<Rightarrow> disk \<Rightarrow> response \<times> session \<times> disk) \<Rightarrow>
   session \<Rightarrow> disk \<Rightarrow> response \<times> session \<times> disk" where
  "admin_required ADMIN_TELEGRAM_IDS telegram_id f s files =
     (case telegram_id of
        None \<Rightarrow> (Response 403 (Error Forbidden_admin_access_required), s, files)
      | Some tid \<Rightarrow>
          if tid = [] \<or> tid \<notin> set ADMIN_TELEGRAM_IDS
          then (Response 403 (Error Forbidden_admin_access_required), s, files)
          else f s files)"

section \<open>app.py: chapters\<close>

text \<open>
  Form fields. A text field is the string sent, \<open>None\<close> when the field is absent. A field
  the handler reads with \<^verbatim>\<open>int(...)\<close> is an \<open>int_text\<close>: the text of an integer, or a
  text on which \<^verbatim>\<open>int\<close> raises \<^verbatim>\<open>ValueError\<close> (the empty text included). The \<^verbatim>\<open>id\<close>
  field of an update is compared with the key column by the database, so it is the integer
  it denotes, and \<open>None\<close> when the field is absent or empty (what \<^verbatim>\<open>not chapter_id\<close>
  tests); how a database reads an \<^verbatim>\<open>id\<close> text that is not an integer is not modelled.
  \<^verbatim>\<open>if file:\<close> holds for a \<^verbatim>\<open>FileStorage\<close> with a non-empty file name.
\<close>

datatype int_text = Int_text int | Not_int_text

definition py_int :: "int_text \<Rightarrow> int option" where
  "py_int txt = (case txt of Int_text n \<Rightarrow> Some n | Not_int_text \<Rightarrow> None)"

definition file_given :: "upload option \<Rightarrow> bool" where
  "file_given file = (case file of None \<Rightarrow> False | Some f \<Rightarrow> filename f \<noteq> [])"

text \<open>\<^verbatim>\<open>db.add(new_chapter)\<close>: the row is inserted with the next key of the sequence.\<close>

definition add_chapter :: "Chapter \<Rightarrow> session \<Rightarrow> Chapter \<times> session" where
  "add_chapter new_chapter s =
     (let d = pending s;
          row = new_chapter\<lparr>ch_id := next_chapter_id d\<rparr>
      in (row, s\<lparr>pending := d\<lparr>chapters := chapters d @ [row],
                                 next_chapter_id := next_chapter_id d + 1\<rparr>\<rparr>))"

text \<open>An attribute write on a loaded row: the session's view of that row changes.\<close>

definition put_chapter :: "Chapter \<Rightarrow> session \<Rightarrow> session" where
  "put_chapter c s =
     s\<lparr>pending := (pending s)\<lparr>chapters :=
          map (\<lambda>r. if ch_id r = ch_id c then c else r) (chapters (pending s))\<rparr>\<rparr>"

text \<open>
  \<^verbatim>\<open>create_chapter\<close> (app.py, lines 97 to 115): the title is checked with
  \<^verbatim>\<open>if not title\<close>, the photo goes through \<^verbatim>\<open>save_photo\<close>, the order is
  \<^verbatim>\<open>(db.query(func.max(Chapter.order)).scalar() or 0) + 1\<close>.
\<close>

definition create_chapter ::
  "io \<Rightarrow> string option \<Rightarrow> upload option \<Rightarrow> session \<Rightarrow> disk \<Rightarrow> response \<times> session \<times> disk" where
  "create_chapter env title file s files =
     (if title = None \<or> title = Some []
      then (Response 400 (Error Title_is_required), s, files)
      else
        case save_photo env file files of
          ((photo_filename, error), files') \<Rightarrow>
            (case error of
               Some e \<Rightarrow> (Response 400 (Error (Photo_rejected e)), s, files')
             | None \<Rightarrow>
                 let max_order = sql_max (map ch_order (chapters (stored s)));
                     new_order = next_order max_order;
                     (new_chapter, s') =
                        add_chapter \<lparr>ch_id = 0, ch_photo_path = photo_filename,
                                     ch_title = title, ch_order = Some new_order\<rparr> s
                 in (Response 201 (Chapter_json (chapter_to_dict new_chapter)),
                     commit s', files')))"

text \<open>
  \<^verbatim>\<open>update_chapter\<close> (app.py, lines 211 to 236). The fields present in the form are
  written to the loaded row; \<^verbatim>\<open>int(data['order'])\<close> may raise, which nothing catches.
  With a file, \<^verbatim>\<open>delete_photo(chapter.photo_path)\<close> runs first, then \<^verbatim>\<open>save_photo(file)\<close>;
  on its error the handler returns 400 without a commit.
\<close>

record chapter_form =
  cf_id :: "int option"
  cf_title :: "string option"
  cf_order :: "int_text option"

definition update_chapter ::
  "io \<Rightarrow> chapter_form \<Rightarrow> upload option \<Rightarrow> session \<Rightarrow> disk \<Rightarrow> response \<times> session \<times> disk" where
  "update_chapter env data file s files =
     (case cf_id data of
        None \<Rightarrow> (Response 400 (Error Chapter_id_is_required_in_body), s, files)
      | Some chapter_id \<Rightarrow>
          (case find (\<lambda>c. ch_id c = chapter_id) (chapters (stored s)) of
             None \<Rightarrow> (Response 404 (Error Chapter_not_found), s, files)
           | Some chapter \<Rightarrow>
               let chapter1 = (case cf_title data of
                                 None \<Rightarrow> chapter
                               | Some txt \<Rightarrow> chapter\<lparr>ch_title := Some txt\<rparr>);
                   s1 = put_chapter chapter1 s
               in
               case (case cf_order data of
                       None \<Rightarrow> Some chapter1
                     | Some txt \<Rightarrow> map_option (\<lambda>n. chapter1\<lparr>ch_order := Some n\<rparr>) (py_int txt)) of
                 None \<Rightarrow> (Response 500 (Error Internal_server_error), s1, files)
               | Some chapter2 \<Rightarrow>
                   let s2 = put_chapter chapter2 s1 in
                   if file_given file
                   then
                     let files1 = delete_photo (ch_photo_path chapter2) files in
                     case save_photo env file files1 of
                       ((photo_filename, error), files2) \<Rightarrow>
                         (case error of
                            Some e \<Rightarrow> (Response 400 (Error (Photo_rejected e)), s2, files2)
                          | None \<Rightarrow>
                              let chapter3 = chapter2\<lparr>ch_photo_path := photo_filename\<rparr>
                              in (Response 200 (Chapter_json (chapter_to_dict chapter3)),
                                  commit (put_chapter chapter3 s2), files2))
                   else (Response 200 (Chapter_json (chapter_to_dict chapter2)),
                         commit s2, files)))"

text \<open>
  The body of \<^verbatim>\<open>PATCH /chapters/order\<close> as \<^verbatim>\<open>request.get_json()\<close> returns it:
  \<open>Not_a_list\<close> is any JSON value that is not an array. An item of the array is an object
  with an integer \<^verbatim>\<open>id\<close> and an integer \<^verbatim>\<open>order\<close> (\<open>Order_item\<close>), an object with an
  integer \<^verbatim>\<open>id\<close> and no \<^verbatim>\<open>order\<close> key (\<open>Id_only\<close>), or a value on which \<^verbatim>\<open>item['id']\<close>
  raises (\<open>No_id\<close>: not an object, or no \<^verbatim>\<open>id\<close> key).
\<close>

datatype order_item = Order_item int int | Id_only int | No_id

datatype order_payload = Not_a_list | Item_list "order_item list"

datatype reorder_exception = No_result_found int | Other_exception

text \<open>\<^verbatim>\<open>[item['id'] for item in order_data]\<close>; \<open>None\<close> when an item raises.\<close>

fun item_ids :: "order_item list \<Rightarrow> int list option" where
  "item_ids [] = Some []"
| "item_ids (Order_item i order # items) = map_option ((#) i) (item_ids items)"
| "item_ids (Id_only i # items) = map_option ((#) i) (item_ids items)"
| "item_ids (No_id # items) = None"

definition set_chapter_order :: "int \<Rightarrow> int \<Rightarrow> session \<Rightarrow> session" where
  "set_chapter_order i order s =
     s\<lparr>pending := (pending s)\<lparr>chapters :=
          map (\<lambda>c. if ch_id c = i then c\<lparr>ch_order := Some order\<rparr> else c)
            (chapters (pending s))\<rparr>\<rparr>"

text \<open>The \<^verbatim>\<open>for\<close> loop over the items; \<open>keys\<close> are the keys of \<^verbatim>\<open>chapter_map\<close>. It
  returns the exception that ended it, if any, and the session with the writes made so far.\<close>

fun reorder_chapters ::
  "int list \<Rightarrow> order_item list \<Rightarrow> session \<Rightarrow> reorder_exception option \<times> session" where
  "reorder_chapters keys [] s = (None, s)"
| "reorder_chapters keys (Order_item i order # items) s =
     (if i \<in> set keys then reorder_chapters keys items (set_chapter_order i order s)
      else (Some (No_result_found i), s))"
| "reorder_chapters keys (Id_only i # items) s =
     (if i \<in> set keys then (Some Other_exception, s) else (Some (No_result_found i), s))"
| "reorder_chapters keys (No_id # items) s = (Some Other_exception, s)"

text \<open>
  \<^verbatim>\<open>update_chapters_order\<close> (app.py, lines 298 to 318): \<^verbatim>\<open>NoResultFound\<close> is answered
  404 and any other exception 500, each after \<^verbatim>\<open>db.rollback()\<close>.
\<close>

definition update_chapters_order ::
  "order_payload \<Rightarrow> session \<Rightarrow> disk \<Rightarrow> response \<times> session \<times> disk" where
  "update_chapters_order order_data s files =
     (case order_data of
        Not_a_list \<Rightarrow> (Response 400 (Error Invalid_data_format), s, files)
      | Item_list items \<Rightarrow>
          (case item_ids items of
             None \<Rightarrow> (Response 500 (Error An_error_occurred), rollback s, files)
           | Some ids \<Rightarrow>
               let chapter_map = filter (\<lambda>c. ch_id c \<in> set ids) (chapters (stored s))
               in case reorder_chapters (map ch_id chapter_map) items s of
                    (None, s') \<Rightarrow>
                      (Response 200 (Message Chapters_order_updated_successfully),
                       commit s', files)
                  | (Some (No_result_found i), s') \<Rightarrow>
                      (Response 404 (Error (Chapter_with_id_not_found i)), rollback s', files)
                  | (Some Other_exception, s') \<Rightarrow>
                      (Response 500 (Error An_error_occurred), rollback s', files)))"

section \<open>app.py: articles\<close>

record article_form =
  af_title :: "string option"
  af_description :: "string option"
  af_link :: "string option"
  af_chapter_id :: "int_text option"

definition add_article :: "Article \<Rightarrow> session \<Rightarrow> Article \<times> session" where
  "add_article new_article s =
     (let d = pending s;
          row = new_article\<lparr>a_id := next_article_id d\<rparr>
      in (row, s\<lparr>pending := d\<lparr>articles := articles d @ [row],
                                 next_article_id := next_article_id d + 1\<rparr>\<rparr>))"

definition put_article :: "Article \<Rightarrow> session \<Rightarrow> session" where
  "put_article a s =
     s\<lparr>pending := (pending s)\<lparr>articles :=
          map (\<lambda>r. if a_id r = a_id a then a else r) (articles (pending s))\<rparr>\<rparr>"

text \<open>
  \<^verbatim>\<open>create_article\<close> (app.py, lines 361 to 387): the four required fields must be in the
  form; \<^verbatim>\<open>int(data['chapter_id'])\<close> may raise; the chapter is looked up; only then is the
  photo saved.
\<close>

definition create_article ::
  "io \<Rightarrow> article_form \<Rightarrow> upload option \<Rightarrow> session \<Rightarrow> disk \<Rightarrow> response \<times> session \<times> disk" where
  "create_article env data file s files =
     (case af_title data of
        None \<Rightarrow> (Response 400 (Error Missing_required_fields), s, files)
      | Some title \<Rightarrow>
     (case af_description data of
        None \<Rightarrow> (Response 400 (Error Missing_required_fields), s, files)
      | Some description \<Rightarrow>
     (case af_link data of
        None \<Rightarrow> (Response 400 (Error Missing_required_fields), s, files)
      | Some link \<Rightarrow>
     (case af_chapter_id data of
        None \<Rightarrow> (Response 400 (Error Missing_required_fields), s, files)
      | Some txt \<Rightarrow>
     (case py_int txt of
        None \<Rightarrow> (Response 500 (Error Internal_server_error), s, files)
      | Some chapter_id \<Rightarrow>
     (case find (\<lambda>c. ch_id c = chapter_id) (chapters (stored s)) of
        None \<Rightarrow> (Response 404 (Error (Chapter_with_id_not_found chapter_id)), s, files)
      | Some chapter \<Rightarrow>
          (case save_photo env file files of
             ((photo_filename, error), files') \<Rightarrow>
               (case error of
                  Some e \<Rightarrow> (Response 400 (Error (Photo_rejected e)), s, files')
                | None \<Rightarrow>
                    let max_order =
                          sql_max (map a_order
                            (filter (\<lambda>a. a_chapter_id a = Some chapter_id) (articles (stored s))));
                        new_order = next_order max_order;
                        (new_article, s') =
                           add_article \<lparr>a_id = 0, a_photo_path = photo_filename,
                                        a_title = Some title, a_description = Some description,
                                        a_link = Some link, a_order = Some new_order,
                                        a_chapter_id = Some chapter_id\<rparr> s
                    in (Response 201 (Article_json (article_to_dict new_article)),
                        commit s', files')))))))))"

record article_update_form =
  uf_id :: "int option"
  uf_title :: "string option"
  uf_description :: "string option"
  uf_link :: "string option"
  uf_order :: "int_text option"
  uf_chapter_id :: "int_text option"

text \<open>The \<^verbatim>\<open>for key in [...]\<close> loop of \<^verbatim>\<open>update_article\<close>, one step per key in the
  order of the source; \<open>None\<close> when \<^verbatim>\<open>int\<close> raises.\<close>

definition set_article_fields :: "article_update_form \<Rightarrow> Article \<Rightarrow> Article option" where
  "set_article_fields data article =
     (let a1 = (case uf_title data of None \<Rightarrow> article | Some v \<Rightarrow> article\<lparr>a_title := Some v\<rparr>);
          a2 = (case uf_description data of None \<Rightarrow> a1 | Some v \<Rightarrow> a1\<lparr>a_description := Some v\<rparr>);
          a3 = (case uf_link data of None \<Rightarrow> a2 | Some v \<Rightarrow> a2\<lparr>a_link := Some v\<rparr>)
      in case (case uf_order data of
                 None \<Rightarrow> Some a3
               | Some txt \<Rightarrow> map_option (\<lambda>n. a3\<lparr>a_order := Some n\<rparr>) (py_int txt)) of
           None \<Rightarrow> None
         | Some a4 \<Rightarrow>
             (case uf_chapter_id data of
                None \<Rightarrow> Some a4
              | Some txt \<Rightarrow> map_option (\<lambda>n. a4\<lparr>a_chapter_id := Some n\<rparr>) (py_int txt)))"

text \<open>\<^verbatim>\<open>db.commit()\<close> of a changed article: the foreign key of \<^verbatim>\<open>models.py\<close>
  (\<^verbatim>\<open>ForeignKey('chapters.id')\<close>) makes the database refuse a \<^verbatim>\<open>chapter_id\<close> that is
  no chapter's key; the exception is not caught.\<close>

definition foreign_key_ok :: "Article \<Rightarrow> db \<Rightarrow> bool" where
  "foreign_key_ok a d =
     (case a_chapter_id a of None \<Rightarrow> True | Some i \<Rightarrow> i \<in> ch_id ` set (chapters d))"

definition commit_article ::
  "Article \<Rightarrow> session \<Rightarrow> disk \<Rightarrow> response \<times> session \<times> disk" where
  "commit_article a s files =
     (if foreign_key_ok a (pending s)
      then (Response 200 (Article_json (article_to_dict a)), commit s, files)
      else (Response 500 (Error Internal_server_error), s, files))"

text \<open>\<^verbatim>\<open>update_article\<close> (app.py, lines 498 to 523), as \<^verbatim>\<open>update_chapter\<close>.\<close>

definition update_article ::
  "io \<Rightarrow> article_update_form \<Rightarrow> upload option \<Rightarrow> session \<Rightarrow> disk \<Rightarrow>
   response \<times> session \<times> disk" where
  "update_article env data file s files =
     (case uf_id data of
        None \<Rightarrow> (Response 400 (Error Article_id_is_required_in_body), s, files)
      | Some article_id \<Rightarrow>
          (case find (\<lambda>a. a_id a = article_id) (articles (stored s)) of
             None \<Rightarrow> (Response 404 (Error Article_not_found), s, files)
           | Some article \<Rightarrow>
               (case set_article_fields data article of
                  None \<Rightarrow> (Response 500 (Error Internal_server_error), s, files)
                | Some article1 \<Rightarrow>
                    let s1 = put_article article1 s in
                    if file_given file
                    then
                      let files1 = delete_photo (a_photo_path article1) files in
                      case save_photo env file files1 of
                        ((photo_filename, error), files2) \<Rightarrow>
                          (case error of
                             Some e \<Rightarrow> (Response 400 (Error (Photo_rejected e)), s1, files2)
                           | None \<Rightarrow>
                               let article2 = article1\<lparr>a_photo_path := photo_filename\<rparr>
                               in commit_article article2 (put_article article2 s1) files2)
                    else commit_article article1 s1 files)))"

definition set_article_order :: "int \<Rightarrow> int \<Rightarrow> session \<Rightarrow> session" where
  "set_article_order i order s =
     s\<lparr>pending := (pending s)\<lparr>articles :=
          map (\<lambda>a. if a_id a = i then a\<lparr>a_order := Some order\<rparr> else a)
            (articles (pending s))\<rparr>\<rparr>"

fun reorder_articles ::
  "int list \<Rightarrow> order_item list \<Rightarrow> session \<Rightarrow> reorder_exception option \<times> session" where
  "reorder_articles keys [] s = (None, s)"
| "reorder_articles keys (Order_item i order # items) s =
     (if i \<in> set keys then reorder_articles keys items (set_article_order i order s)
      else (Some (No_result_found i), s))"
| "reorder_articles keys (Id_only i # items) s =
     (if i \<in> set keys then (Some Other_exception, s) else (Some (No_result_found i), s))"
| "reorder_articles keys (No_id # items) s = (Some Other_exception, s)"

text \<open>\<^verbatim>\<open>update_articles_order\<close> (app.py, lines 585 to 605).\<close>

definition update_articles_order ::
  "order_payload \<Rightarrow> session \<Rightarrow> disk \<Rightarrow> response \<times> session \<times> disk" where
  "update_articles_order order_data s files =
     (case order_data of
        Not_a_list \<Rightarrow> (Response 400 (Error Invalid_data_format), s, files)
      | Item_list items \<Rightarrow>
          (case item_ids items of
             None \<Rightarrow> (Response 500 (Error An_error_occurred), rollback s, files)
           | Some ids \<Rightarrow>
               let article_map = filter (\<lambda>a. a_id a \<in> set ids) (articles (stored s))
               in case reorder_articles (map a_id article_map) items s of
                    (None, s') \<Rightarrow>
                      (Response 200 (Message Articles_order_updated_successfully),
                       commit s', files)
                  | (Some (No_result_found i), s') \<Rightarrow>
                      (Response 404 (Error (Article_with_id_not_found i)), rollback s', files)
                  | (Some Other_exception, s') \<Rightarrow>
                      (Response 500 (Error An_error_occurred), rollback s', files)))"

section \<open>app.py: tariffs\<close>

text \<open>
  \<^verbatim>\<open>get_tariff\<close> (app.py, lines 627 to 630): the first tariff with the id and
  \<^verbatim>\<open>is_active == True\<close>; a NULL \<^verbatim>\<open>is_active\<close> does not match.
\<close>

definition get_tariff :: "int \<Rightarrow> session \<Rightarrow> disk \<Rightarrow> response \<times> session \<times> disk" where
  "get_tariff tariff_id s files =
     (case find (\<lambda>t. t_id t = tariff_id \<and> t_is_active t = Some True) (tariffs (stored s)) of
        None \<Rightarrow> (Response 404 (Error Active_tariff_not_found), s, files)
      | Some tariff \<Rightarrow> (Response 200 (Tariff_json (tariff_to_dict tariff)), s, files))"

section \<open>A sequence of chapter creations\<close>



section \<open>Example stores\<close>

definition empty_db :: db where
  "empty_db =
     \<lparr>chapters = [], articles = [], tariffs = [], next_chapter_id = 1, next_article_id = 1\<rparr>"

definition example_db :: db where
  "example_db =
     \<lparr>chapters =
        [\<lparr>ch_id = 1, ch_photo_path = Some ''old.png'', ch_title = Some ''Intro'',
          ch_order = Some 1\<rparr>,
         \<lparr>ch_id = 2, ch_photo_path = None, ch_title = Some ''Usage'', ch_order = Some 2\<rparr>],
      articles =
        [\<lparr>a_id = 1, a_photo_path = Some ''art.png'', a_title = Some ''First'',
          a_description = Some ''text'', a_link = Some ''http://a/1'', a_order = Some 1,
          a_chapter_id = Some 1\<rparr>,
         \<lparr>a_id = 2, a_photo_path = None, a_title = Some ''Second'',
          a_description = Some ''text'', a_link = Some ''http://a/2'', a_order = Some 2,
          a_chapter_id = Some 1\<rparr>],
      tariffs =
        [\<lparr>t_id = 1, t_name = ''Month'', t_duration_days = 30, t_price = 10,
          t_currency = ''USD'', t_is_active = Some False\<rparr>,
         \<lparr>t_id = 2, t_name = ''Year'', t_duration_days = 365, t_price = 100,
          t_currency = ''USD'', t_is_active = Some True\<rparr>],
      next_chapter_id = 3, next_article_id = 3\<rparr>"

section \<open>The result of \<open>save_photo\<close>\<close>

lemma save_photo_cases:
  assumes "save_photo env file files = ((name, err), files')"
  shows "(name = None \<and> err = None \<and> files' = files \<and>
            (file = None \<or> (\<exists>f. file = Some f \<and> filename f = [])))
       \<or> (name = None \<and> err = Some Invalid_file_type \<and> files' = files \<and>
            (\<exists>f. file = Some f \<and> filename f \<noteq> [] \<and> \<not> allowed_file (filename f)))
       \<or> (\<exists>f e. file = Some f \<and> filename f \<noteq> [] \<and> allowed_file (filename f) \<and>
            name = None \<and> err = Some e \<and> generated_name env f \<notin> files')
       \<or> (\<exists>f. file = Some f \<and> filename f \<noteq> [] \<and> allowed_file (filename f) \<and>
            name = Some (generated_name env f) \<and> err = None \<and>
            files' = insert (generated_name env f) files)"
  using assms
  by (auto simp: save_photo_def Let_def
      split: option.splits if_splits prod.splits sum.splits)

text \<open>
  Claim C9. \<^verbatim>\<open>save_photo\<close> never returns both a stored file name and an error. For
  a supplied file with a non-empty name exactly one of the two is returned. Whenever an
  error is returned for a file whose extension is allowed (the only case in which a path
  is generated), no file is left in the upload directory at the generated path.
\<close>

theorem save_photo_name_xor_error:
  assumes "save_photo env file files = ((name, err), files')"
  shows "(name = None \<or> err = None) \<and>
         (\<forall>f. file = Some f \<and> filename f \<noteq> [] \<longrightarrow> (name = None) \<noteq> (err = None)) \<and>
         (\<forall>f. file = Some f \<and> allowed_file (filename f) \<and> err \<noteq> None \<longrightarrow>
              generated_name env f \<notin> files')"
  using save_photo_cases [OF assms] by auto

lemma allowed_file_cover: "allowed_file ''cover.PNG''"
  by (simp add: allowed_file_def rsplit_ext_def lower_char_def ALLOWED_EXTENSIONS_def)

lemma generated_name_cover:
  "generated_name \<lparr>uuid4 = ''u1'', save_ok = True\<rparr>
     \<lparr>filename = ''cover.PNG'', image_size = sz\<rparr> = ''u1.png''"
  by (simp add: generated_name_def rsplit_ext_def lower_char_def)

theorem save_photo_name_xor_error_witness:
  "save_photo \<lparr>uuid4 = ''u1'', save_ok = True\<rparr>
     (Some \<lparr>filename = ''cover.PNG'', image_size = None\<rparr>) {''old.png''}
   = ((None, Some (Error_processing_image Cannot_identify_image)), {''old.png''})
   \<and> ''u1.png'' \<notin> {''old.png''}"
proof -
  have run: "save_photo \<lparr>uuid4 = ''u1'', save_ok = True\<rparr>
     (Some \<lparr>filename = ''cover.PNG'', image_size = None\<rparr>) {''old.png''}
   = ((None, Some (Error_processing_image Cannot_identify_image)), {''old.png''})"
    by (simp add: save_photo_def allowed_file_cover generated_name_cover)
  from save_photo_name_xor_error [OF run] run show ?thesis
    by (simp add: allowed_file_cover generated_name_cover)
qed

section \<open>The admin guard and lookups\<close>

lemma admin_required_allowed:
  "tid \<noteq> [] \<Longrightarrow> tid \<in> set admins \<Longrightarrow>
   run_request (admin_required admins (Some tid) handler) d files = run_request handler d files"
  by (simp add: run_request_def admin_required_def)

lemma admin_required_forbidden:
  "telegram_id = None \<or> telegram_id = Some [] \<or> the telegram_id \<notin> set admins \<Longrightarrow>
   run_request (admin_required admins telegram_id handler) d files =
     (Response 403 (Error Forbidden_admin_access_required), d, files)"
  by (auto simp: run_request_def admin_required_def open_session_def close_session_def
      split: option.splits)

lemma find_None_set: "find P xs = None \<longleftrightarrow> (\<forall>x\<in>set xs. \<not> P x)"
  by (induction xs) auto

lemma find_Some_set: "find P xs = Some x \<Longrightarrow> x \<in> set xs \<and> P x"
  by (induction xs) (auto split: if_splits)

lemma find_chapter_None:
  "k \<notin> ch_id ` set rows \<Longrightarrow> find (\<lambda>c. ch_id c = k) rows = None"
  by (auto simp: find_None_set)

section \<open>Tariffs\<close>

text \<open>
  Claim C8. \<^verbatim>\<open>GET /tariffs/{id}\<close> answers 200 exactly when a tariff with that id and
  \<^verbatim>\<open>is_active = true\<close> is stored. In every other case, whether the tariff is inactive or
  no tariff has the id, the answer is the one response 404 with the body
  \<^verbatim>\<open>{"error": "Active tariff not found"}\<close>, and the store is left as it was.
\<close>

theorem get_tariff_active_only:
  "(status (fst (run_request (get_tariff i) d files)) = 200 \<longleftrightarrow>
      (\<exists>t\<in>set (tariffs d). t_id t = i \<and> t_is_active t = Some True)) \<and>
   (\<not> (\<exists>t\<in>set (tariffs d). t_id t = i \<and> t_is_active t = Some True) \<longrightarrow>
      run_request (get_tariff i) d files =
        (Response 404 (Error Active_tariff_not_found), d, files))"
  by (auto simp: run_request_def get_tariff_def open_session_def close_session_def
      find_None_set split: option.splits dest: find_Some_set)



theorem get_tariff_active_only_witness:
  "run_request (get_tariff 1) example_db {} =
     (Response 404 (Error Active_tariff_not_found), example_db, {}) \<and>
   run_request (get_tariff 7) example_db {} = run_request (get_tariff 1) example_db {} \<and>
   status (fst (run_request (get_tariff 2) example_db {})) = 200"
  using get_tariff_active_only [of 1 example_db "{}"] get_tariff_active_only [of 7 example_db "{}"]
    get_tariff_active_only [of 2 example_db "{}"]
  by (simp add: example_db_def)

section \<open>Bulk reorder\<close>

















text \<open>
  Claim C10. A reorder request with the empty list answers 200 with the success message of
  the endpoint (the message of every successful reorder, see
  \<open>chapters_reorder_found\<close> and \<open>articles_reorder_found\<close>) and leaves the store as it
  was; a payload that is not a list answers 400 whatever the store holds, and leaves it
  as it was.
\<close>

theorem reorder_empty_or_not_list:
  "run_request (update_chapters_order (Item_list [])) d files =
     (Response 200 (Message Chapters_order_updated_successfully), d, files) \<and>
   run_request (update_articles_order (Item_list [])) d files =
     (Response 200 (Message Articles_order_updated_successfully), d, files) \<and>
   run_request (update_chapters_order Not_a_list) d files =
     (Response 400 (Error Invalid_data_format), d, files) \<and>
   run_request (update_articles_order Not_a_list) d files =
     (Response 400 (Error Invalid_data_format), d, files)"
  by (simp add: run_request_def update_chapters_order_def update_articles_order_def
      open_session_def close_session_def commit_def)

section \<open>Rounding to a float\<close>

lemma pow2_powi: "pow2 e = 2 powi e"
  by (simp add: pow2_def power_int_def inverse_eq_divide power_one_over)

lemma pow2_pos: "0 < pow2 e"
  by (simp add: pow2_powi)

lemma pow2_add: "pow2 (a + b) = pow2 a * pow2 b"
  by (simp add: pow2_powi power_int_add)

lemma pow2_mono: "a \<le> b \<Longrightarrow> pow2 a \<le> pow2 b"
  by (simp add: pow2_powi power_int_increasing)

lemma pow2_numeral: "pow2 0 = 1" "pow2 1 = 2" "pow2 52 = 2 ^ 52" "pow2 53 = 2 ^ 53"
  by (simp_all add: pow2_def)

lemma int_less_rat: "(a::int) < b \<Longrightarrow> (of_int a :: rat) + 1 \<le> of_int b"
proof -
  assume "a < b"
  then have "a + 1 \<le> b" by simp
  then have "(of_int (a + 1) :: rat) \<le> of_int b" by (simp only: of_int_le_iff)
  then show ?thesis by simp
qed

lemma round_half_even_floor:
  obtains f where "of_int f \<le> y" "y < of_int f + 1"
    "round_half_even y =
       (if y - of_int f < 1 / 2 then f
        else if 1 / 2 < y - of_int f then f + 1
        else if even f then f else f + 1)"
proof
  show "of_int \<lfloor>y\<rfloor> \<le> y" "y < of_int \<lfloor>y\<rfloor> + 1" by linarith+
  show "round_half_even y =
       (if y - of_int \<lfloor>y\<rfloor> < 1 / 2 then \<lfloor>y\<rfloor>
        else if 1 / 2 < y - of_int \<lfloor>y\<rfloor> then \<lfloor>y\<rfloor> + 1
        else if even \<lfloor>y\<rfloor> then \<lfloor>y\<rfloor> else \<lfloor>y\<rfloor> + 1)"
    by (simp add: round_half_even_def Let_def)
qed

lemma rhe_le_iff_even:
  assumes "even m"
  shows "round_half_even y \<le> m \<longleftrightarrow> y \<le> of_int m + 1 / 2"
proof -
  obtain f where fl: "of_int f \<le> y" "y < of_int f + 1" and
    rhe: "round_half_even y =
       (if y - of_int f < 1 / 2 then f
        else if 1 / 2 < y - of_int f then f + 1
        else if even f then f else f + 1)"
    by (rule round_half_even_floor)
  consider "f < m" | "f = m" | "m < f" by linarith
  then show ?thesis
  proof cases
    case 1
    from int_less_rat [OF 1] fl 1 show ?thesis
      unfolding rhe by auto
  next
    case 2
    with fl assms show ?thesis
      unfolding rhe by auto
  next
    case 3
    from int_less_rat [OF 3] fl 3 show ?thesis
      unfolding rhe by auto
  qed
qed

lemma rhe_ge_iff_even:
  assumes "even m"
  shows "m \<le> round_half_even y \<longleftrightarrow> of_int m - 1 / 2 \<le> y"
proof -
  obtain f where fl: "of_int f \<le> y" "y < of_int f + 1" and
    rhe: "round_half_even y =
       (if y - of_int f < 1 / 2 then f
        else if 1 / 2 < y - of_int f then f + 1
        else if even f then f else f + 1)"
    by (rule round_half_even_floor)
  consider "f + 1 < m" | "f + 1 = m" | "m \<le> f" by linarith
  then show ?thesis
  proof cases
    case 1
    from int_less_rat [OF 1] fl 1 show ?thesis
      unfolding rhe by auto
  next
    case 2
    then have "(of_int m :: rat) = of_int f + 1" by auto
    moreover from 2 assms have "odd f" by auto
    ultimately show ?thesis
      using fl 2 unfolding rhe by auto
  next
    case 3
    then have "(of_int m :: rat) \<le> of_int f" by simp
    with fl 3 show ?thesis
      unfolding rhe by auto
  qed
qed

lemma rhe_ge_int: "of_int n \<le> y \<Longrightarrow> n \<le> round_half_even y"
proof -
  assume "of_int n \<le> y"
  then have "n \<le> \<lfloor>y\<rfloor>" by (simp add: le_floor_iff)
  then show ?thesis by (auto simp: round_half_even_def Let_def)
qed

lemma rhe_le_int: "y \<le> of_int n \<Longrightarrow> round_half_even y \<le> n"
proof -
  assume le: "y \<le> of_int n"
  show ?thesis
  proof (cases "y = of_int n")
    case True
    then show ?thesis by (simp add: round_half_even_def Let_def)
  next
    case False
    with le have "y < of_int n" by simp
    then have "\<lfloor>y\<rfloor> < n" by (simp add: floor_less_iff)
    then show ?thesis by (auto simp: round_half_even_def Let_def)
  qed
qed

lemma bitlen_rat_bounds:
  assumes "0 < a"
  shows "pow2 (bitlen a - 1) \<le> of_int a" "of_int a < pow2 (bitlen a)"
proof -
  from bitlen_bounds [OF assms]
  have lo: "2 ^ nat (bitlen a - 1) \<le> a" and hi: "a < 2 ^ nat (bitlen a)" by simp_all
  from assms have pos: "1 \<le> bitlen a"
    using bitlen_eq_zero_iff [of a] bitlen_nonneg [of a] by linarith
  from lo have "(of_int (2 ^ nat (bitlen a - 1)) :: rat) \<le> of_int a"
    by (simp only: of_int_le_iff)
  with pos show "pow2 (bitlen a - 1) \<le> of_int a"
    by (simp add: pow2_def)
  from hi have "(of_int a :: rat) < of_int (2 ^ nat (bitlen a))"
    by (simp only: of_int_less_iff)
  with pos show "of_int a < pow2 (bitlen a)"
    by (simp add: pow2_def)
qed

lemma binade_bounds:
  assumes "0 < x"
  shows "pow2 (binade x) \<le> x" "x < pow2 (binade x + 1)"
proof -
  obtain a b where q: "quotient_of x = (a, b)" by (cases "quotient_of x")
  then have b: "0 < b" and x: "x = of_int a / of_int b"
    by (simp_all add: quotient_of_denom_pos quotient_of_div)
  from assms x b have a: "0 < a"
    by (simp add: zero_less_divide_iff)
  let ?k = "bitlen a - bitlen b"
  have bin: "binade x = (if pow2 ?k \<le> x then ?k else ?k - 1)"
    by (simp add: binade_def q Let_def)
  from b have b': "(0::rat) < of_int b" by simp
  have up: "x < pow2 (?k + 1)"
  proof -
    have "of_int a < pow2 (bitlen a)" by (rule bitlen_rat_bounds [OF a])
    also have "pow2 (bitlen a) = pow2 (?k + 1) * pow2 (bitlen b - 1)"
      by (simp add: pow2_add [symmetric])
    also have "\<dots> \<le> pow2 (?k + 1) * of_int b"
      using bitlen_rat_bounds(1) [OF b] pow2_pos [of "?k + 1"]
      by (simp add: mult_left_mono)
    finally show ?thesis
      using b' by (simp add: x pos_divide_less_eq)
  qed
  have low: "pow2 (?k - 1) \<le> x"
  proof -
    have "pow2 (?k - 1) * of_int b \<le> pow2 (?k - 1) * pow2 (bitlen b)"
      using bitlen_rat_bounds(2) [OF b] pow2_pos [of "?k - 1"]
      by (simp add: mult_left_mono)
    also have "\<dots> = pow2 (bitlen a - 1)"
      by (simp add: pow2_add [symmetric])
    also have "\<dots> \<le> of_int a" by (rule bitlen_rat_bounds [OF a])
    finally show ?thesis
      using b' by (simp add: x pos_le_divide_eq)
  qed
  show "pow2 (binade x) \<le> x"
    using low by (simp add: bin)
  show "x < pow2 (binade x + 1)"
    using up by (auto simp: bin)
qed

lemma round_to_double_pos:
  assumes "0 < x"
  shows "round_to_double x =
           of_int (round_half_even (x * pow2 (52 - max (binade x) (- 1022)))) *
             pow2 (max (binade x) (- 1022) - 52)"
  using assms by (simp add: round_to_double_def Let_def)

text \<open>At or above 2, the rounded value is at least 2; below 1, it is at most 1.\<close>

lemma round_to_double_ge_2:
  assumes "0 < x" and "1 \<le> binade x"
  shows "2 \<le> x" "2 \<le> round_to_double x"
proof -
  let ?e = "binade x"
  from assms(2) have e: "max ?e (- 1022) = ?e" by simp
  from pow2_mono [OF assms(2)] binade_bounds(1) [OF assms(1)]
  show "2 \<le> x" by (simp add: pow2_numeral)
  have "pow2 52 = pow2 ?e * pow2 (52 - ?e)"
    by (simp add: pow2_add [symmetric])
  also have "\<dots> \<le> x * pow2 (52 - ?e)"
    using binade_bounds(1) [OF assms(1)] pow2_pos [of "52 - ?e"]
    by (simp add: mult_right_mono)
  finally have "of_int (2 ^ 52) \<le> x * pow2 (52 - ?e)"
    by (simp add: pow2_numeral)
  then have "2 ^ 52 \<le> round_half_even (x * pow2 (52 - ?e))"
    by (rule rhe_ge_int)
  then have "(of_int (2 ^ 52) :: rat) \<le> of_int (round_half_even (x * pow2 (52 - ?e)))"
    by (simp only: of_int_le_iff)
  then have "pow2 52 * pow2 (?e - 52) \<le> round_to_double x"
    using pow2_pos [of "?e - 52"]
    by (simp add: round_to_double_pos [OF assms(1)] e pow2_numeral mult_right_mono)
  moreover have "pow2 52 * pow2 (?e - 52) = pow2 ?e"
    by (simp add: pow2_add [symmetric])
  ultimately show "2 \<le> round_to_double x"
    using pow2_mono [OF assms(2)] by (simp add: pow2_numeral)
qed

lemma round_to_double_le_1:
  assumes "0 < x" and "binade x \<le> - 1"
  shows "x < 1" "round_to_double x \<le> 1"
proof -
  let ?e = "max (binade x) (- 1022)"
  from assms(2) have e: "?e \<le> - 1" "binade x + 1 \<le> ?e + 1" by simp_all
  from binade_bounds(2) [OF assms(1)] pow2_mono [of "binade x + 1" 0] assms(2)
  show "x < 1" by (simp add: pow2_numeral)
  have "x * pow2 (52 - ?e) \<le> pow2 (?e + 1) * pow2 (52 - ?e)"
    using binade_bounds(2) [OF assms(1)] pow2_mono [OF e(2)] pow2_pos [of "52 - ?e"]
    by (simp add: mult_right_mono)
  also have "\<dots> = pow2 53"
    by (simp add: pow2_add [symmetric])
  finally have "x * pow2 (52 - ?e) \<le> of_int (2 ^ 53)"
    by (simp add: pow2_numeral)
  then have "round_half_even (x * pow2 (52 - ?e)) \<le> 2 ^ 53"
    by (rule rhe_le_int)
  then have "(of_int (round_half_even (x * pow2 (52 - ?e))) :: rat) \<le> of_int (2 ^ 53)"
    by (simp only: of_int_le_iff)
  then have "round_to_double x \<le> pow2 53 * pow2 (?e - 52)"
    using pow2_pos [of "?e - 52"]
    by (simp add: round_to_double_pos [OF assms(1)] pow2_numeral mult_right_mono)
  moreover have "pow2 53 * pow2 (?e - 52) = pow2 (?e + 1)"
    by (simp add: pow2_add [symmetric] ac_simps)
  ultimately show "round_to_double x \<le> 1"
    using pow2_mono [of "?e + 1" 0] e(1) by (simp add: pow2_numeral)
qed

lemma round_to_double_unit:
  assumes "0 < x" and "binade x = 0"
  shows "round_to_double x = of_int (round_half_even (x * 2 ^ 52)) / 2 ^ 52"
  using assms by (simp add: round_to_double_pos pow2_def)

lemma round_to_double_le_iff:
  assumes x: "0 < x" and m: "even m" and lo: "2 ^ 52 \<le> m" and hi: "m < 2 ^ 53"
  shows "round_to_double x \<le> of_int m / 2 ^ 52 \<longleftrightarrow> x \<le> (of_int m + 1 / 2) / 2 ^ 52"
proof -
  from lo have "(of_int (2 ^ 52) :: rat) \<le> of_int m" by (simp only: of_int_le_iff)
  then have lo': "(4503599627370496 :: rat) \<le> of_int m" by simp
  from int_less_rat [OF hi] have hi': "(of_int m :: rat) + 1 \<le> 9007199254740992" by simp
  consider "binade x = 0" | "1 \<le> binade x" | "binade x \<le> - 1" by linarith
  then show ?thesis
  proof cases
    case 1
    have "round_to_double x \<le> of_int m / 2 ^ 52 \<longleftrightarrow> round_half_even (x * 2 ^ 52) \<le> m"
      by (simp add: round_to_double_unit [OF x 1] divide_le_cancel)
    also have "\<dots> \<longleftrightarrow> x * 2 ^ 52 \<le> of_int m + 1 / 2"
      by (rule rhe_le_iff_even [OF m])
    also have "\<dots> \<longleftrightarrow> x \<le> (of_int m + 1 / 2) / 2 ^ 52"
      by (simp add: pos_le_divide_eq)
    finally show ?thesis .
  next
    case 2
    from round_to_double_ge_2 [OF x 2] hi' show ?thesis
      by (simp add: field_simps)
  next
    case 3
    from round_to_double_le_1 [OF x 3] lo' show ?thesis
      by (simp add: field_simps)
  qed
qed

lemma round_to_double_ge_iff:
  assumes x: "0 < x" and m: "even m" and lo: "2 ^ 52 < m" and hi: "m < 2 ^ 53"
  shows "of_int m / 2 ^ 52 \<le> round_to_double x \<longleftrightarrow> (of_int m - 1 / 2) / 2 ^ 52 \<le> x"
proof -
  from int_less_rat [OF lo] have lo': "(4503599627370496 :: rat) + 1 \<le> of_int m" by simp
  from int_less_rat [OF hi] have hi': "(of_int m :: rat) + 1 \<le> 9007199254740992" by simp
  consider "binade x = 0" | "1 \<le> binade x" | "binade x \<le> - 1" by linarith
  then show ?thesis
  proof cases
    case 1
    have "of_int m / 2 ^ 52 \<le> round_to_double x \<longleftrightarrow> m \<le> round_half_even (x * 2 ^ 52)"
      by (simp add: round_to_double_unit [OF x 1] divide_le_cancel)
    also have "\<dots> \<longleftrightarrow> of_int m - 1 / 2 \<le> x * 2 ^ 52"
      by (rule rhe_ge_iff_even [OF m])
    also have "\<dots> \<longleftrightarrow> (of_int m - 1 / 2) / 2 ^ 52 \<le> x"
      by (simp add: pos_divide_le_eq)
    finally show ?thesis .
  next
    case 2
    from round_to_double_ge_2 [OF x 2] hi' show ?thesis
      by (simp add: field_simps)
  next
    case 3
    from round_to_double_le_1 [OF x 3] lo' show ?thesis
      by (simp add: field_simps)
  qed
qed

lemma lower_bound_value: "lower_bound = 3803039685335085 / 2251799813685248"
  by code_simp

lemma upper_bound_value: "upper_bound = 4203359652212463 / 2251799813685248"
  by code_simp

lemma ratio_le_nat:
  fixes a b w h :: nat
  assumes "0 < h" and that: "0 < b"
  shows "((of_nat w / of_nat h :: rat) \<le> of_nat a / of_nat b) = (b * w \<le> a * h)"
proof -
  have "(b * w \<le> a * h) = ((of_nat (b * w) :: rat) \<le> of_nat (a * h))"
    by (simp only: of_nat_le_iff)
  also have "\<dots> = ((of_nat w / of_nat h :: rat) \<le> of_nat a / of_nat b)"
    using assms by (simp add: field_simps)
  finally show ?thesis by simp
qed

lemma ratio_ge_nat:
  fixes a b w h :: nat
  assumes "0 < h" and that: "0 < b"
  shows "((of_nat a / of_nat b :: rat) \<le> of_nat w / of_nat h) = (a * h \<le> b * w)"
proof -
  have "(a * h \<le> b * w) = ((of_nat (a * h) :: rat) \<le> of_nat (b * w))"
    by (simp only: of_nat_le_iff)
  also have "\<dots> = ((of_nat a / of_nat b :: rat) \<le> of_nat w / of_nat h)"
    using assms by (simp add: field_simps)
  finally show ?thesis by simp
qed

lemma upper_gap:
  assumes h: "0 < h" "h < 2 ^ 32"
  shows "((of_nat w / of_nat h :: rat) \<le> (of_int 8406719304424926 + 1 / 2) / 2 ^ 52)
         = ((of_nat w / of_nat h :: rat) \<le> 28 / 15)"
proof
  assume "(of_nat w / of_nat h :: rat) \<le> 28 / 15"
  then show "(of_nat w / of_nat h :: rat) \<le> (of_int 8406719304424926 + 1 / 2) / 2 ^ 52"
    by simp
next
  assume le: "(of_nat w / of_nat h :: rat) \<le> (of_int 8406719304424926 + 1 / 2) / 2 ^ 52"
  show "(of_nat w / of_nat h :: rat) \<le> 28 / 15"
  proof (rule ccontr)
    assume "\<not> (of_nat w / of_nat h :: rat) \<le> 28 / 15"
    with ratio_le_nat [OF h(1), of 15 w 28] have "28 * h + 1 \<le> 15 * w" by simp
    then have "(of_nat (28 * h + 1) :: rat) \<le> of_nat (15 * w)"
      by (simp only: of_nat_le_iff)
    then have big: "28 * (of_nat h :: rat) + 1 \<le> 15 * of_nat w" by simp
    from h(2) have "(of_nat h :: rat) < of_nat (2 ^ 32)" by (simp only: of_nat_less_iff)
    then have hb: "(of_nat h :: rat) < 4294967296" by simp
    from h(1) have hp: "(0 :: rat) < of_nat h" by simp
    from le hp have "(of_nat w :: rat) \<le> (16813438608849853 / 9007199254740992) * of_nat h"
      by (simp add: pos_divide_le_eq)
    with big hb hp show False by linarith
  qed
qed

lemma lower_gap:
  assumes h: "0 < h" "h < 2 ^ 32"
  shows "((of_int 7606079370670170 - 1 / 2) / 2 ^ 52 \<le> (of_nat w / of_nat h :: rat))
         = (76 / 45 \<le> (of_nat w / of_nat h :: rat))"
proof
  assume "76 / 45 \<le> (of_nat w / of_nat h :: rat)"
  then show "(of_int 7606079370670170 - 1 / 2) / 2 ^ 52 \<le> (of_nat w / of_nat h :: rat)"
    by simp
next
  assume le: "(of_int 7606079370670170 - 1 / 2) / 2 ^ 52 \<le> (of_nat w / of_nat h :: rat)"
  show "76 / 45 \<le> (of_nat w / of_nat h :: rat)"
  proof (rule ccontr)
    assume "\<not> 76 / 45 \<le> (of_nat w / of_nat h :: rat)"
    with ratio_ge_nat [OF h(1), of 45 76 w] have "45 * w + 1 \<le> 76 * h" by simp
    then have "(of_nat (45 * w + 1) :: rat) \<le> of_nat (76 * h)"
      by (simp only: of_nat_le_iff)
    then have big: "45 * (of_nat w :: rat) + 1 \<le> 76 * of_nat h" by simp
    from h(2) have "(of_nat h :: rat) < of_nat (2 ^ 32)" by (simp only: of_nat_less_iff)
    then have hb: "(of_nat h :: rat) < 4294967296" by simp
    from h(1) have hp: "(0 :: rat) < of_nat h" by simp
    from le hp have "(15212158741340339 / 9007199254740992) * of_nat h \<le> (of_nat w :: rat)"
      by (simp add: pos_le_divide_eq)
    with big hb hp show False by linarith
  qed
qed

lemma ratio_check_exact:
  assumes h: "0 < h" "h < 2 ^ 32"
  shows "(lower_bound \<le> round_to_double (of_nat w / of_nat h) \<and>
          round_to_double (of_nat w / of_nat h) \<le> upper_bound)
       = (76 / 45 \<le> (of_nat w / of_nat h :: rat) \<and> (of_nat w / of_nat h :: rat) \<le> 28 / 15)"
proof (cases "w = 0")
  case True
  then show ?thesis
    by (simp add: round_to_double_def lower_bound_value)
next
  case False
  with h have x: "(0 :: rat) < of_nat w / of_nat h" by simp
  have ub: "upper_bound = of_int 8406719304424926 / 2 ^ 52"
    by (simp add: upper_bound_value)
  have lb: "lower_bound = of_int 7606079370670170 / 2 ^ 52"
    by (simp add: lower_bound_value)
  have "round_to_double (of_nat w / of_nat h) \<le> upper_bound
        \<longleftrightarrow> (of_nat w / of_nat h :: rat) \<le> 28 / 15"
    unfolding ub
    by (subst round_to_double_le_iff [OF x]) (simp_all only: upper_gap [OF h], simp_all)
  moreover have "lower_bound \<le> round_to_double (of_nat w / of_nat h)
        \<longleftrightarrow> 76 / 45 \<le> (of_nat w / of_nat h :: rat)"
    unfolding lb
    by (subst round_to_double_ge_iff [OF x]) (simp_all only: lower_gap [OF h], simp_all)
  ultimately show ?thesis by simp
qed

section \<open>The aspect ratio check\<close>

lemma save_photo_ratio_cases:
  assumes "allowed_file (filename f)" and "save_ok env" and "image_size f = Some (w, h)"
    and "0 < h" and "h < 2 ^ 32"
  shows "if 76 / 45 \<le> (of_nat w / of_nat h :: rat) \<and> (of_nat w / of_nat h :: rat) \<le> 28 / 15
         then save_photo env (Some f) files =
                ((Some (generated_name env f), None), insert (generated_name env f) files)
         else \<exists>e. save_photo env (Some f) files =
                ((None, Some e), files - {generated_name env f})"
proof -
  let ?r = "round_to_double (of_nat w / of_nat h)"
  from assms(1) have ne: "filename f \<noteq> []"
    by (auto simp: allowed_file_def)
  have ok: "(lower_bound \<le> ?r \<and> ?r \<le> upper_bound)
       = (76 / 45 \<le> (of_nat w / of_nat h :: rat) \<and> (of_nat w / of_nat h :: rat) \<le> 28 / 15)"
    by (rule ratio_check_exact [OF assms(4,5)])
  have small: "\<not> 2 ^ 1024 \<le> ?r" if "?r \<le> upper_bound"
  proof -
    have "upper_bound \<le> 2" by (simp add: upper_bound_value)
    moreover have "(2 :: rat) < 2 ^ 1024"
      using power_strict_increasing [of 1 1024 "2 :: rat"] by simp
    ultimately show ?thesis using that by linarith
  qed
  show ?thesis
  proof (cases "lower_bound \<le> ?r \<and> ?r \<le> upper_bound")
    case True
    with small have "truediv w h = Inr ?r"
      using assms(4) by (simp add: truediv_def Let_def)
    with True ok assms ne show ?thesis
      by (simp add: save_photo_def Let_def)
  next
    case False
    show ?thesis
    proof (cases "2 ^ 1024 \<le> ?r")
      case True
      then have "truediv w h = Inl Division_overflow"
        using assms(4) by (simp add: truediv_def Let_def)
      with False ok assms ne show ?thesis
        by (simp add: save_photo_def Let_def)
    next
      case under: False
      then have "truediv w h = Inr ?r"
        using assms(4) by (simp add: truediv_def Let_def)
      with False ok assms ne show ?thesis
        by (simp add: save_photo_def Let_def)
    qed
  qed
qed

lemma save_photo_height_zero:
  assumes "allowed_file (filename f)" and "save_ok env" and "image_size f = Some (w, 0)"
  shows "save_photo env (Some f) files =
           ((None, Some (Error_processing_image Height_zero)), files - {generated_name env f})"
proof -
  from assms(1) have "filename f \<noteq> []"
    by (auto simp: allowed_file_def)
  with assms show ?thesis
    by (simp add: save_photo_def Let_def)
qed

text \<open>
  Claim C5. For an uploaded image whose file name has an allowed extension and whose
  height is positive, \<^verbatim>\<open>save_photo\<close> accepts the file (returns the generated name, no
  error, the file kept) if and only if width / height lies in the closed interval from
  16/9 * 0.95 to 16/9 * 1.05, both ends included, although the source compares rounded
  floats. When the ratio is outside the interval, or the height is zero, it returns an
  error and no name, and the file just written is not in the upload directory. The
  height is below \<open>2 ^ 32\<close>, as the size field of every image header is; the write of the
  file succeeds.
\<close>

theorem save_photo_aspect_ratio:
  assumes "allowed_file (filename f)" and "save_ok env" and "image_size f = Some (w, h)"
    and "h < 2 ^ 32"
  shows "(0 < h \<longrightarrow>
            (save_photo env (Some f) files =
               ((Some (generated_name env f), None), insert (generated_name env f) files))
            = (16 / 9 * (95 / 100) \<le> (of_nat w / of_nat h :: rat) \<and>
               (of_nat w / of_nat h :: rat) \<le> 16 / 9 * (105 / 100))) \<and>
         (h = 0 \<or> \<not> (16 / 9 * (95 / 100) \<le> (of_nat w / of_nat h :: rat) \<and>
                       (of_nat w / of_nat h :: rat) \<le> 16 / 9 * (105 / 100)) \<longrightarrow>
            (\<exists>e. save_photo env (Some f) files =
                   ((None, Some e), files - {generated_name env f})))"
proof (cases "h = 0")
  case True
  with save_photo_height_zero [OF assms(1,2), of w files] assms(3)
  show ?thesis by simp
next
  case False
  then have h: "0 < h" by simp
  from save_photo_ratio_cases [OF assms(1,2,3) h assms(4), of files]
  show ?thesis
    using h by (auto split: if_splits)
qed

theorem save_photo_aspect_ratio_witness:
  "save_photo \<lparr>uuid4 = ''u1'', save_ok = True\<rparr>
     (Some \<lparr>filename = ''cover.PNG'', image_size = Some (1792, 960)\<rparr>) {}
   = ((Some ''u1.png'', None), {''u1.png''}) \<and>
   (\<exists>e. save_photo \<lparr>uuid4 = ''u1'', save_ok = True\<rparr>
     (Some \<lparr>filename = ''cover.PNG'', image_size = Some (1793, 960)\<rparr>) {}
   = ((None, Some e), {}))"
  using
    save_photo_aspect_ratio [of "\<lparr>filename = ''cover.PNG'', image_size = Some (1792, 960)\<rparr>"
      "\<lparr>uuid4 = ''u1'', save_ok = True\<rparr>" 1792 960 "{}"]
    save_photo_aspect_ratio [of "\<lparr>filename = ''cover.PNG'', image_size = Some (1793, 960)\<rparr>"
      "\<lparr>uuid4 = ''u1'', save_ok = True\<rparr>" 1793 960 "{}"]
  by (simp add: allowed_file_cover generated_name_cover)

text \<open>Three uploads evaluated: a 16:9 image, a square image, no file.\<close>

lemma save_photo_1920_1080:
  "save_photo \<lparr>uuid4 = u, save_ok = True\<rparr>
     (Some \<lparr>filename = ''cover.PNG'', image_size = Some (1920, 1080)\<rparr>) files
   = ((Some (u @ ''.png''), None), insert (u @ ''.png'') files)"
  using save_photo_ratio_cases
    [of "\<lparr>filename = ''cover.PNG'', image_size = Some (1920, 1080)\<rparr>"
      "\<lparr>uuid4 = u, save_ok = True\<rparr>" 1920 1080 files]
  by (simp add: allowed_file_cover generated_name_def rsplit_ext_def lower_char_def)

lemma save_photo_no_file: "save_photo env None files = ((None, None), files)"
  by (simp add: save_photo_def)

lemma round_to_double_1: "round_to_double 1 = 1"
  by code_simp

lemma save_photo_square:
  "save_photo \<lparr>uuid4 = u, save_ok = True\<rparr>
     (Some \<lparr>filename = ''cover.PNG'', image_size = Some (1000, 1000)\<rparr>) files
   = ((None, Some (Invalid_aspect_ratio 1)), files - {u @ ''.png''})"
  by (simp add: save_photo_def allowed_file_cover generated_name_def rsplit_ext_def
      lower_char_def truediv_def round_to_double_1 lower_bound_value Let_def)

lemma save_photo_error_subset:
  assumes "save_photo env file files = ((name, Some e), files')"
  shows "files' \<subseteq> files"
  using assms
  by (auto simp: save_photo_def Let_def
      split: option.splits if_splits prod.splits sum.splits)

section \<open>The order given to a new row\<close>

lemma sql_max_eq:
  "sql_max col = (if non_null col = [] then None else Some (Max (set (non_null col))))"
  by (cases "non_null col") (simp_all add: sql_max_def Max.set_eq_fold [symmetric])

lemma next_order_sql_max:
  "next_order (sql_max col) =
     (if non_null col = [] then 1 else Max (set (non_null col)) + 1)"
  by (simp add: sql_max_eq next_order_def)

lemma create_chapter_cases:
  assumes "run_request (create_chapter env title file) d files = (r, d', files')"
  shows "(status r = 201 \<and>
            (\<exists>c. chapters d' = chapters d @ [c] \<and>
                 ch_order c = Some (next_order (sql_max (map ch_order (chapters d))))))
         \<or> (status r = 400 \<and> d' = d)"
  using assms
  by (auto simp: run_request_def create_chapter_def open_session_def close_session_def
      commit_def add_chapter_def Let_def split: if_splits prod.splits option.splits)

lemma create_article_cases:
  assumes "run_request (create_article env data file) d files = (r, d', files')"
  shows "(status r = 201 \<and>
            (\<exists>a k. af_chapter_id data = Some (Int_text k) \<and>
                 articles d' = articles d @ [a] \<and> a_chapter_id a = Some k \<and>
                 a_order a = Some (next_order (sql_max (map a_order
                    (filter (\<lambda>a. a_chapter_id a = Some k) (articles d)))))))
         \<or> (status r \<noteq> 201 \<and> d' = d)"
  using assms
  by (auto simp: run_request_def create_article_def open_session_def close_session_def
      commit_def add_article_def Let_def py_int_def
      split: if_splits prod.splits option.splits int_text.splits)

text \<open>
  Claim C3. A create request takes no order from the client. When it succeeds (status
  201), the store gains exactly one row at its end, and the order of that row is 1 plus
  the largest order in its scope, and 1 when the scope holds no order: the scope is every
  chapter for a chapter, and the articles of the request's \<^verbatim>\<open>chapter_id\<close> for an article.
\<close>

theorem create_assigns_next_order:
  "(status (fst (run_request (create_chapter env title file) d files)) = 201 \<longrightarrow>
      (\<exists>c. chapters (fst (snd (run_request (create_chapter env title file) d files))) =
              chapters d @ [c] \<and>
           ch_order c =
             Some (let scope = non_null (map ch_order (chapters d))
                   in if scope = [] then 1 else Max (set scope) + 1))) \<and>
   (status (fst (run_request (create_article env' data file') d files)) = 201 \<longrightarrow>
      (\<exists>a k. af_chapter_id data = Some (Int_text k) \<and>
           articles (fst (snd (run_request (create_article env' data file') d files))) =
              articles d @ [a] \<and>
           a_chapter_id a = Some k \<and>
           a_order a =
             Some (let scope = non_null (map a_order
                                  (filter (\<lambda>a. a_chapter_id a = Some k) (articles d)))
                   in if scope = [] then 1 else Max (set scope) + 1)))"
proof (intro conjI impI)
  assume ok: "status (fst (run_request (create_chapter env title file) d files)) = 201"
  obtain r d' files' where
    run: "run_request (create_chapter env title file) d files = (r, d', files')"
    by (cases "run_request (create_chapter env title file) d files")
  from create_chapter_cases [OF run] ok run
  show "\<exists>c. chapters (fst (snd (run_request (create_chapter env title file) d files))) =
              chapters d @ [c] \<and>
           ch_order c =
             Some (let scope = non_null (map ch_order (chapters d))
                   in if scope = [] then 1 else Max (set scope) + 1)"
    by (auto simp: next_order_sql_max Let_def)
next
  assume ok: "status (fst (run_request (create_article env' data file') d files)) = 201"
  obtain r d' files' where
    run: "run_request (create_article env' data file') d files = (r, d', files')"
    by (cases "run_request (create_article env' data file') d files")
  from create_article_cases [OF run] ok run
  show "\<exists>a k. af_chapter_id data = Some (Int_text k) \<and>
           articles (fst (snd (run_request (create_article env' data file') d files))) =
              articles d @ [a] \<and>
           a_chapter_id a = Some k \<and>
           a_order a =
             Some (let scope = non_null (map a_order
                                  (filter (\<lambda>a. a_chapter_id a = Some k) (articles d)))
                   in if scope = [] then 1 else Max (set scope) + 1)"
    by (auto simp: next_order_sql_max Let_def)
qed

theorem create_assigns_next_order_witness:
  "map ch_order (chapters (fst (snd (run_request
      (create_chapter \<lparr>uuid4 = ''u2'', save_ok = True\<rparr> (Some ''Third'')
         (Some \<lparr>filename = ''cover.PNG'', image_size = Some (1920, 1080)\<rparr>))
      example_db {''old.png'', ''art.png''})))) = [Some 1, Some 2, Some 3] \<and>
   map a_order (articles (fst (snd (run_request
      (create_article \<lparr>uuid4 = ''u3'', save_ok = True\<rparr>
         \<lparr>af_title = Some ''Third'', af_description = Some ''text'',
          af_link = Some ''http://a/3'', af_chapter_id = Some (Int_text 1)\<rparr> None)
      example_db {''old.png'', ''art.png''})))) = [Some 1, Some 2, Some 3] \<and>
   map a_order (articles (fst (snd (run_request
      (create_article \<lparr>uuid4 = ''u3'', save_ok = True\<rparr>
         \<lparr>af_title = Some ''Other'', af_description = Some ''text'',
          af_link = Some ''http://a/4'', af_chapter_id = Some (Int_text 2)\<rparr> None)
      example_db {''old.png'', ''art.png''})))) = [Some 1, Some 2, Some 1]"
  using
    create_assigns_next_order [of "\<lparr>uuid4 = ''u2'', save_ok = True\<rparr>" "Some ''Third''"
      "Some \<lparr>filename = ''cover.PNG'', image_size = Some (1920, 1080)\<rparr>" example_db
      "{''old.png'', ''art.png''}" "\<lparr>uuid4 = ''u3'', save_ok = True\<rparr>"
      "\<lparr>af_title = Some ''Third'', af_description = Some ''text'',
        af_link = Some ''http://a/3'', af_chapter_id = Some (Int_text 1)\<rparr>" None]
  by (simp add: run_request_def create_chapter_def create_article_def save_photo_1920_1080
      save_photo_no_file open_session_def close_session_def commit_def add_chapter_def
      add_article_def py_int_def sql_max_def next_order_def example_db_def Let_def)







section \<open>An article for a chapter that does not exist\<close>

text \<open>
  Claim C7, as the code has it. \<^verbatim>\<open>create_article\<close> first checks that the four required
  fields are present and only then looks the chapter up. So for a request whose
  \<^verbatim>\<open>chapter_id\<close> is an integer that is the id of no stored chapter: no article row is
  created and the upload directory is left as it was (the photo is never handed to
  \<^verbatim>\<open>save_photo\<close>); the answer is 404 when title, description and link are all present,
  and 400 (missing required fields) when one of them is absent.
\<close>

theorem create_article_unknown_chapter:
  assumes "af_chapter_id data = Some (Int_text k)" and "k \<notin> ch_id ` set (chapters d)"
  shows "snd (run_request (create_article env data file) d files) = (d, files) \<and>
         (af_title data \<noteq> None \<and> af_description data \<noteq> None \<and> af_link data \<noteq> None \<longrightarrow>
            fst (run_request (create_article env data file) d files) =
              Response 404 (Error (Chapter_with_id_not_found k))) \<and>
         (af_title data = None \<or> af_description data = None \<or> af_link data = None \<longrightarrow>
            fst (run_request (create_article env data file) d files) =
              Response 400 (Error Missing_required_fields))"
  using assms(1) find_chapter_None [OF assms(2)]
  by (auto simp: run_request_def create_article_def open_session_def close_session_def
      py_int_def split: option.splits)

theorem create_article_unknown_chapter_witness:
  "run_request
     (create_article \<lparr>uuid4 = ''u4'', save_ok = True\<rparr>
        \<lparr>af_title = Some ''Fifth'', af_description = Some ''text'',
         af_link = Some ''http://a/5'', af_chapter_id = Some (Int_text 99)\<rparr>
        (Some \<lparr>filename = ''cover.PNG'', image_size = Some (1920, 1080)\<rparr>))
     example_db {''old.png'', ''art.png''} =
   (Response 404 (Error (Chapter_with_id_not_found 99)), example_db, {''old.png'', ''art.png''})"
  using create_article_unknown_chapter
    [of "\<lparr>af_title = Some ''Fifth'', af_description = Some ''text'',
         af_link = Some ''http://a/5'', af_chapter_id = Some (Int_text 99)\<rparr>" 99 example_db
      "\<lparr>uuid4 = ''u4'', save_ok = True\<rparr>"
      "Some \<lparr>filename = ''cover.PNG'', image_size = Some (1920, 1080)\<rparr>"
      "{''old.png'', ''art.png''}"]
  by (simp add: example_db_def prod_eq_iff)

text \<open>
  The claim as stated (404 for every request whose \<^verbatim>\<open>chapter_id\<close> names no chapter) fails
  on a request that lacks the title: the answer is 400.
\<close>

theorem create_article_missing_field_counterexample:
  "99 \<notin> ch_id ` set (chapters example_db) \<and>
   fst (run_request
     (create_article \<lparr>uuid4 = ''u4'', save_ok = True\<rparr>
        \<lparr>af_title = None, af_description = Some ''text'',
         af_link = Some ''http://a/5'', af_chapter_id = Some (Int_text 99)\<rparr>
        (Some \<lparr>filename = ''cover.PNG'', image_size = Some (1920, 1080)\<rparr>))
     example_db {''old.png'', ''art.png''}) = Response 400 (Error Missing_required_fields) \<and>
   status (fst (run_request
     (create_article \<lparr>uuid4 = ''u4'', save_ok = True\<rparr>
        \<lparr>af_title = None, af_description = Some ''text'',
         af_link = Some ''http://a/5'', af_chapter_id = Some (Int_text 99)\<rparr>
        (Some \<lparr>filename = ''cover.PNG'', image_size = Some (1920, 1080)\<rparr>))
     example_db {''old.png'', ''art.png''})) \<noteq> 404"
  by (simp add: run_request_def create_article_def example_db_def)

section \<open>An update whose new photo is rejected\<close>

text \<open>
  Whenever an update of a chapter is answered with the error of \<^verbatim>\<open>save_photo\<close>, nothing
  is committed: the store is the one before the request. But \<^verbatim>\<open>delete_photo\<close> has
  already run on the row's stored photo, so that file is gone from the upload directory
  while the row still names it.
\<close>

theorem update_chapter_rejected_photo:
  assumes "run_request (update_chapter env data file) d files =
             (Response 400 (Error (Photo_rejected e)), d', files')"
  shows "d' = d \<and>
         (\<exists>chapter_id chapter. cf_id data = Some chapter_id \<and>
            find (\<lambda>c. ch_id c = chapter_id) (chapters d) = Some chapter \<and>
            (\<forall>p. ch_photo_path chapter = Some p \<and> p \<noteq> [] \<longrightarrow> p \<notin> files'))"
proof -
  from assms obtain cid row where
    i: "cf_id data = Some cid" and
    c: "find (\<lambda>c. ch_id c = cid) (chapters d) = Some row"
    by (auto simp: run_request_def update_chapter_def open_session_def Let_def
        split: option.splits if_splits prod.splits)
  from assms i c obtain name files1 where
    sp: "save_photo env file (delete_photo (ch_photo_path row) files) =
           ((name, Some e), files1)" and out: "files' = files1" "d' = d"
    by (auto simp: run_request_def update_chapter_def open_session_def close_session_def
        put_chapter_def Let_def split: option.splits if_splits prod.splits)
  from save_photo_error_subset [OF sp] out
  have "\<forall>p. ch_photo_path row = Some p \<and> p \<noteq> [] \<longrightarrow> p \<notin> files'"
    by (auto simp: delete_photo_def)
  with i c out show ?thesis by blast
qed

theorem update_chapter_rejected_photo_witness:
  "run_request
     (update_chapter \<lparr>uuid4 = ''u7'', save_ok = True\<rparr>
        \<lparr>cf_id = Some 1, cf_title = None, cf_order = Some (Int_text 9)\<rparr>
        (Some \<lparr>filename = ''cover.PNG'', image_size = Some (1000, 1000)\<rparr>))
     example_db {''old.png''} =
   (Response 400 (Error (Photo_rejected (Invalid_aspect_ratio 1))), example_db, {}) \<and>
   ''old.png'' \<notin> ({} :: disk)"
proof -
  have run: "run_request
     (update_chapter \<lparr>uuid4 = ''u7'', save_ok = True\<rparr>
        \<lparr>cf_id = Some 1, cf_title = None, cf_order = Some (Int_text 9)\<rparr>
        (Some \<lparr>filename = ''cover.PNG'', image_size = Some (1000, 1000)\<rparr>))
     example_db {''old.png''} =
   (Response 400 (Error (Photo_rejected (Invalid_aspect_ratio 1))), example_db, {})"
    by (auto simp: run_request_def update_chapter_def save_photo_square py_int_def
        open_session_def close_session_def put_chapter_def file_given_def
        delete_photo_def example_db_def Let_def)
  from update_chapter_rejected_photo [OF run] run show ?thesis by simp
qed

text \<open>
  Claim C2 says that an update whose new photo fails validation leaves the previously
  stored photo untouched. On the example store, chapter 1 has the photo \<^verbatim>\<open>old.png\<close> and
  article 1 the photo \<^verbatim>\<open>art.png\<close>. An update of either with a square image is answered
  400 and commits nothing (the new title included), but the old photo file of the row is
  deleted.
\<close>

theorem update_rejected_photo_deletes_old_file:
  "run_request
     (update_chapter \<lparr>uuid4 = ''u5'', save_ok = True\<rparr>
        \<lparr>cf_id = Some 1, cf_title = Some ''Renamed'', cf_order = None\<rparr>
        (Some \<lparr>filename = ''cover.PNG'', image_size = Some (1000, 1000)\<rparr>))
     example_db {''old.png'', ''art.png''} =
   (Response 400 (Error (Photo_rejected (Invalid_aspect_ratio 1))), example_db, {''art.png''}) \<and>
   run_request
     (update_article \<lparr>uuid4 = ''u5'', save_ok = True\<rparr>
        \<lparr>uf_id = Some 1, uf_title = Some ''Renamed'', uf_description = None, uf_link = None,
         uf_order = None, uf_chapter_id = None\<rparr>
        (Some \<lparr>filename = ''cover.PNG'', image_size = Some (1000, 1000)\<rparr>))
     example_db {''old.png'', ''art.png''} =
   (Response 400 (Error (Photo_rejected (Invalid_aspect_ratio 1))), example_db, {''old.png''})"
  by (auto simp: run_request_def update_chapter_def update_article_def save_photo_square
      open_session_def close_session_def put_chapter_def put_article_def file_given_def
      delete_photo_def set_article_fields_def example_db_def Let_def)

section \<open>A chapter created without a photo\<close>

text \<open>
  A request \<^verbatim>\<open>POST /chapters\<close> without a title is answered 400 and creates nothing. A
  request with a title and no photo (no file part, or a file part with an empty file
  name) is accepted: \<^verbatim>\<open>save_photo\<close> returns no error for it, and a chapter without a photo
  is stored.
\<close>

theorem create_chapter_title_missing:
  "title = None \<or> title = Some [] \<Longrightarrow>
   run_request (create_chapter env title file) d files =
     (Response 400 (Error Title_is_required), d, files)"
  by (auto simp: run_request_def create_chapter_def open_session_def close_session_def)

theorem create_chapter_title_missing_witness:
  "run_request
     (create_chapter \<lparr>uuid4 = ''u8'', save_ok = True\<rparr> (Some [])
        (Some \<lparr>filename = ''cover.PNG'', image_size = Some (1920, 1080)\<rparr>))
     example_db {''old.png''} =
   (Response 400 (Error Title_is_required), example_db, {''old.png''})"
  using create_chapter_title_missing [of "Some []" "\<lparr>uuid4 = ''u8'', save_ok = True\<rparr>"
      "Some \<lparr>filename = ''cover.PNG'', image_size = Some (1920, 1080)\<rparr>" example_db
      "{''old.png''}"]
  by simp

lemma create_chapter_photo_missing:
  "title = Some t \<Longrightarrow> t \<noteq> [] \<Longrightarrow> file = None \<or> file = Some f \<and> filename f = [] \<Longrightarrow>
   status (fst (run_request (create_chapter env title file) d files)) = 201 \<and>
   length (chapters (fst (snd (run_request (create_chapter env title file) d files)))) =
     Suc (length (chapters d))"
  by (auto simp: run_request_def create_chapter_def save_photo_def open_session_def
      close_session_def commit_def add_chapter_def Let_def)

text \<open>
  Claim C6 says that a chapter is created only when both the title and the photo are
  present, as the docstring of \<^verbatim>\<open>create_chapter\<close> declares (\<^verbatim>\<open>photo\<close>: required). On the
  empty store, the request with the title \<^verbatim>\<open>Intro\<close> and no photo is answered 201 and stores
  a chapter whose \<^verbatim>\<open>photo_path\<close> is NULL.
\<close>

theorem create_chapter_without_photo:
  "run_request (create_chapter \<lparr>uuid4 = ''u6'', save_ok = True\<rparr> (Some ''Intro'') None)
     empty_db {} =
   (Response 201 (Chapter_json \<lparr>cd_id = 1, cd_title = Some ''Intro'', cd_photo_url = None,
       cd_order = Some 1\<rparr>),
    empty_db\<lparr>chapters := [\<lparr>ch_id = 1, ch_photo_path = None, ch_title = Some ''Intro'',
                            ch_order = Some 1\<rparr>],
             next_chapter_id := 2\<rparr>,
    {})"
  by (simp add: run_request_def create_chapter_def save_photo_no_file open_session_def
      close_session_def commit_def add_chapter_def sql_max_def next_order_def empty_db_def
      chapter_to_dict_def photo_url_def Let_def)

end
